theory Spec2Isabelle
  imports Main
begin

section \<open>Data model of the backlog store\<close>

text \<open>
  The persisted document is a JSON object whose key \<open>issues\<close> maps an issue name to
  \<open>{description, status, tasks}\<close>, and \<open>tasks\<close> maps a task id to
  \<open>{title, description, status}\<close>. Python dictionaries keep insertion order and
  \<open>list_tasks\<close> iterates in that order, so a dictionary is an association list. Statuses
  are stored as plain strings: the code validates them on the way in, and reads back
  whatever the file holds.
\<close>

record task =
  t_title :: string
  t_description :: string
  t_status :: string

record issue =
  i_description :: string
  i_status :: string
  i_tasks :: "(string \<times> task) list"

type_synonym store = "(string \<times> issue) list"

text \<open>
  \<open>BacklogContext\<close> of the source holds the path of the tasks file and the active
  issue. The model holds in \<open>tasks_file\<close> what is found at that path: \<open>None\<close> when the
  file does not exist, cannot be parsed, or has no \<open>issues\<close> key; \<open>Some d\<close> when it holds
  the issues mapping \<open>d\<close>. \<open>active_issue\<close> is Python's \<open>None\<close> or a string.
\<close>

record BacklogContext =
  tasks_file :: "store option"
  active_issue :: "string option"

subsection \<open>Dictionary operations\<close>

text \<open>\<open>k in d\<close>.\<close>

definition contains :: "('k \<times> 'v) list \<Rightarrow> 'k \<Rightarrow> bool" where
  "contains d k = (k \<in> set (map fst d))"

text \<open>
  \<open>d[k]\<close> is \<open>map_of d k\<close>: \<open>Some v\<close> for the value stored under \<open>k\<close>, \<open>None\<close> where Python
  raises \<open>KeyError\<close>. The operations below read \<open>d[k]\<close> only behind the test \<open>k in d\<close>,
  which the model writes as one case distinction on \<open>map_of d k\<close>.
\<close>

text \<open>
  \<open>d[k] = v\<close>: an existing key keeps its position and gets the new value, a new key is
  appended.
\<close>

primrec setitem :: "('k \<times> 'v) list \<Rightarrow> 'k \<Rightarrow> 'v \<Rightarrow> ('k \<times> 'v) list" where
  "setitem [] k v = [(k, v)]"
| "setitem (p # ps) k v = (if fst p = k then (k, v) # ps else p # setitem ps k v)"

subsection \<open>Status vocabularies\<close>

text \<open>\<open>[s.value for s in TaskStatus]\<close> and \<open>[s.value for s in IssueStatus]\<close>.\<close>

definition TaskStatus :: "string list" where
  "TaskStatus = [''New'', ''InWork'', ''Done'']"

definition IssueStatus :: "string list" where
  "IssueStatus = [''New'', ''InWork'', ''Done'']"

subsection \<open>Strings\<close>

text \<open>The single quote and the newline, which cannot be typed inside a string literal.\<close>

definition sq :: string where
  "sq = [CHR 0x27]"

definition nl :: string where
  "nl = [CHR 0x0A]"

text \<open>\<open>sep.join(xs)\<close>.\<close>

fun join :: "string \<Rightarrow> string list \<Rightarrow> string" where
  "join sep [] = []"
| "join sep [x] = x"
| "join sep (x # y # ys) = x @ sep @ join sep (y # ys)"

text \<open>\<open>str(n)\<close> for a non-negative integer.\<close>

definition digit :: "nat \<Rightarrow> char" where
  "digit d = char_of (48 + d)"

function str_nat :: "nat \<Rightarrow> string" where
  "str_nat n = (if n < 10 then [digit n] else str_nat (n div 10) @ [digit (n mod 10)])"
  by pat_completeness auto
termination
  by (relation "measure (\<lambda>n. n)") auto

text \<open>Truthiness of an optional string: \<open>None\<close> and the empty string are falsy.\<close>

definition truthy :: "string option \<Rightarrow> bool" where
  "truthy s = (case s of None \<Rightarrow> False | Some x \<Rightarrow> x \<noteq> [])"

section \<open>Persistence\<close>

text \<open>
  \<open>_load_tasks\<close> returns \<open>{"issues": {}}\<close> when the file is missing, unreadable or has
  no \<open>issues\<close> key, and the parsed document otherwise. \<open>_save_tasks\<close> overwrites the
  file with the whole document. The file system is taken to be reliable: a write that
  fails (and is only logged by the source) is outside the model.
\<close>

definition load_tasks :: "store option \<Rightarrow> store" where
  "load_tasks f = (case f of None \<Rightarrow> [] | Some d \<Rightarrow> d)"

definition save_tasks :: "BacklogContext \<Rightarrow> store \<Rightarrow> BacklogContext" where
  "save_tasks ctx d = ctx\<lparr>tasks_file := Some d\<rparr>"

section \<open>Result messages\<close>

text \<open>
  Every tool returns one text message. The error texts are named here after the
  condition they report; each definition is the source's format string.
\<close>

definition already_exists :: "string \<Rightarrow> string" where
  "already_exists name = ''Error: Issue '' @ sq @ name @ sq @ '' already exists.''"

definition invalid_status :: "string \<Rightarrow> string list \<Rightarrow> string" where
  "invalid_status status vals =
     ''Error: Invalid status '' @ sq @ status @ sq @ ''. Valid values are: '' @ join '', '' vals"

definition issue_not_found :: "string \<Rightarrow> string" where
  "issue_not_found name = ''Error: Issue '' @ sq @ name @ sq @ '' not found.''"

definition no_active_issue :: string where
  "no_active_issue =
     ''Error: No active issue. Please select an issue using '' @ sq @ ''select_issue'' @ sq @ '' first.''"

definition task_not_found :: "string \<Rightarrow> string \<Rightarrow> string" where
  "task_not_found task_id name =
     ''Error: Task with ID '' @ sq @ task_id @ sq @ '' not found in issue '' @ sq @ name @ sq @ ''.''"

section \<open>Issue operations\<close>

text \<open>
  Each operation takes the context and its arguments and returns the message and the
  context after the call. The \<open>try ... except Exception\<close> around each body has no branch
  in the model: on a document of the shape above no statement of the body raises.
\<close>

definition create_issue ::
  "BacklogContext \<Rightarrow> string \<Rightarrow> string \<Rightarrow> string \<Rightarrow> string \<times> BacklogContext" where
  "create_issue ctx name description status =
     (let d = load_tasks (tasks_file ctx) in
      if contains d name then (already_exists name, ctx)
      else if status \<notin> set IssueStatus then (invalid_status status IssueStatus, ctx)
      else
        let d' = setitem d name \<lparr>i_description = description, i_status = status, i_tasks = []\<rparr>;
            ctx' = save_tasks ctx d'
        in (''Successfully created issue: '' @ name @ '' with status: '' @ status,
            ctx'\<lparr>active_issue := Some name\<rparr>))"

text \<open>The lines \<open>list_issues\<close> appends for one issue.\<close>

definition issue_lines :: "string option \<Rightarrow> string \<times> issue \<Rightarrow> string list" where
  "issue_lines active p =
     (let issue_name = fst p; issue_data = snd p;
          task_count = length (i_tasks issue_data);
          active_marker = (if Some issue_name = active then '' (active)'' else '''');
          description_preview =
            (if take 30 (i_description issue_data) \<noteq> [] \<and> length (i_description issue_data) > 30
             then take 30 (i_description issue_data) @ ''...''
             else take 30 (i_description issue_data))
      in [''- '' @ issue_name @ active_marker @ '': Status: '' @ i_status issue_data
            @ '', Tasks: '' @ str_nat task_count]
         @ (if description_preview \<noteq> [] then [''  Description: '' @ description_preview] else []))"

definition list_issues :: "BacklogContext \<Rightarrow> string \<times> BacklogContext" where
  "list_issues ctx =
     (let d = load_tasks (tasks_file ctx) in
      if d = [] then
        (''No issues found. Use '' @ sq @ ''create_issue'' @ sq @ '' to create a new issue.'', ctx)
      else
        (join nl ([''Available issues:''] @ concat (map (issue_lines (active_issue ctx)) d)), ctx))"

definition select_issue :: "BacklogContext \<Rightarrow> string \<Rightarrow> string \<times> BacklogContext" where
  "select_issue ctx name =
     (let d = load_tasks (tasks_file ctx) in
      if \<not> contains d name then (issue_not_found name, ctx)
      else (''Selected issue: '' @ name, ctx\<lparr>active_issue := Some name\<rparr>))"

definition initialize_issue ::
  "BacklogContext \<Rightarrow> string \<Rightarrow> string \<Rightarrow> string \<Rightarrow> string \<times> BacklogContext" where
  "initialize_issue ctx name description status =
     (let d = load_tasks (tasks_file ctx) in
      if status \<notin> set IssueStatus then (invalid_status status IssueStatus, ctx)
      else
        let d' = setitem d name \<lparr>i_description = description, i_status = status, i_tasks = []\<rparr>;
            ctx' = save_tasks ctx d'
        in (''Successfully initialized issue: '' @ name @ '' with status: '' @ status,
            ctx'\<lparr>active_issue := Some name\<rparr>))"

definition update_issue_status ::
  "BacklogContext \<Rightarrow> string \<Rightarrow> string \<Rightarrow> string \<times> BacklogContext" where
  "update_issue_status ctx name status =
     (let d = load_tasks (tasks_file ctx) in
      case map_of d name of
        None \<Rightarrow> (issue_not_found name, ctx)
      | Some issue_data \<Rightarrow>
          if status \<notin> set IssueStatus then (invalid_status status IssueStatus, ctx)
          else
            let old_status = i_status issue_data;
                d' = setitem d name (issue_data\<lparr>i_status := status\<rparr>)
            in (''Successfully updated issue '' @ sq @ name @ sq @ '' status from '' @ sq
                  @ old_status @ sq @ '' to '' @ sq @ status @ sq @ ''.'',
                save_tasks ctx d'))"

section \<open>Task operations\<close>

text \<open>
  \<open>uuid.uuid4()\<close> is a random draw; the model takes the drawn string \<open>str(uuid.uuid4())\<close>
  as the argument \<open>uuid4\<close>, and the task id is its first eight characters. The guard
  \<open>if not active_issue\<close> holds for \<open>None\<close> and for the empty string.
\<close>

definition add_task ::
  "BacklogContext \<Rightarrow> string \<Rightarrow> string \<Rightarrow> string \<Rightarrow> string \<times> BacklogContext" where
  "add_task ctx uuid4 title description =
     (case active_issue ctx of
        None \<Rightarrow> (no_active_issue, ctx)
      | Some name \<Rightarrow>
          if name = [] then (no_active_issue, ctx)
          else
            let d = load_tasks (tasks_file ctx) in
            case map_of d name of
              None \<Rightarrow> (issue_not_found name, ctx)
            | Some issue_data \<Rightarrow>
                let task_id = take 8 uuid4;
                    new_tasks = setitem (i_tasks issue_data) task_id
                      \<lparr>t_title = title, t_description = description, t_status = ''New''\<rparr>;
                    d' = setitem d name (issue_data\<lparr>i_tasks := new_tasks\<rparr>)
                in (''Successfully added task: '' @ title @ '' (ID: '' @ task_id
                      @ '') to issue '' @ sq @ name @ sq,
                    save_tasks ctx d'))"

text \<open>The lines \<open>list_tasks\<close> appends for one task that passes the filter.\<close>

definition task_lines :: "string \<times> task \<Rightarrow> string list" where
  "task_lines p =
     [nl @ ''ID: '' @ fst p, ''Title: '' @ t_title (snd p), ''Status: '' @ t_status (snd p)]
     @ (if t_description (snd p) \<noteq> [] then [''Description: '' @ t_description (snd p)] else [])"

text \<open>The loop over \<open>issue_tasks.items()\<close>, with \<open>result\<close> as the accumulator.\<close>

fun list_tasks_loop :: "string option \<Rightarrow> (string \<times> task) list \<Rightarrow> string list \<Rightarrow> string list" where
  "list_tasks_loop status [] result = result"
| "list_tasks_loop status (p # ps) result =
     (if truthy status \<and> Some (t_status (snd p)) \<noteq> status
      then list_tasks_loop status ps result
      else list_tasks_loop status ps (result @ task_lines p))"

text \<open>The part of \<open>list_tasks\<close> after the status filter has been validated.\<close>

definition build_task_list :: "string \<Rightarrow> issue \<Rightarrow> string option \<Rightarrow> string" where
  "build_task_list name issue_data status =
     (let result0 = [''Tasks for issue: '' @ name]
            @ (if i_description issue_data \<noteq> []
               then [''Issue description: '' @ i_description issue_data] else []);
          result = list_tasks_loop status (i_tasks issue_data) result0
      in if length result = 1 \<or> (length result = 2 \<and> i_description issue_data \<noteq> [])
         then (case status of
                 None \<Rightarrow> ''No tasks found''
               | Some s \<Rightarrow>
                   if s \<noteq> [] then ''No tasks found with status '' @ sq @ s @ sq
                   else ''No tasks found'')
         else join nl result)"

definition list_tasks :: "BacklogContext \<Rightarrow> string option \<Rightarrow> string \<times> BacklogContext" where
  "list_tasks ctx status =
     (case active_issue ctx of
        None \<Rightarrow> (no_active_issue, ctx)
      | Some name \<Rightarrow>
          if name = [] then (no_active_issue, ctx)
          else
            let d = load_tasks (tasks_file ctx) in
            case map_of d name of
              None \<Rightarrow> (issue_not_found name, ctx)
            | Some issue_data \<Rightarrow>
                if length (i_tasks issue_data) = 0
                then (''No tasks found in issue '' @ sq @ name @ sq @ ''.'', ctx)
                else
                  (case status of
                     None \<Rightarrow> (build_task_list name issue_data status, ctx)
                   | Some s \<Rightarrow>
                       if s \<noteq> [] \<and> s \<notin> set TaskStatus
                       then (invalid_status s TaskStatus, ctx)
                       else (build_task_list name issue_data status, ctx)))"

definition update_task_status ::
  "BacklogContext \<Rightarrow> string \<Rightarrow> string \<Rightarrow> string \<times> BacklogContext" where
  "update_task_status ctx task_id status =
     (case active_issue ctx of
        None \<Rightarrow> (no_active_issue, ctx)
      | Some name \<Rightarrow>
          if name = [] then (no_active_issue, ctx)
          else
            let d = load_tasks (tasks_file ctx) in
            case map_of d name of
              None \<Rightarrow> (issue_not_found name, ctx)
            | Some issue_data \<Rightarrow>
                (case map_of (i_tasks issue_data) task_id of
                   None \<Rightarrow> (task_not_found task_id name, ctx)
                 | Some t \<Rightarrow>
                     if status \<notin> set TaskStatus then (invalid_status status TaskStatus, ctx)
                     else
                       let old_status = t_status t;
                           new_tasks = setitem (i_tasks issue_data) task_id (t\<lparr>t_status := status\<rparr>);
                           d' = setitem d name (issue_data\<lparr>i_tasks := new_tasks\<rparr>)
                       in (''Successfully updated task '' @ sq @ t_title t @ sq @ '' (ID: ''
                             @ task_id @ '') status from '' @ sq @ old_status @ sq @ '' to ''
                             @ sq @ status @ sq @ ''.'',
                           save_tasks ctx d')))"

section \<open>The service as a transition system\<close>

text \<open>
  One constructor per tool, carrying the tool's arguments (and, for \<open>add_task\<close>, the
  drawn uuid). A session starts with no tasks file and no active issue.
\<close>

datatype call =
    CreateIssue string string string
  | ListIssues
  | SelectIssue string
  | InitializeIssue string string string
  | AddTask string string string
  | ListTasks "string option"
  | UpdateTaskStatus string string
  | UpdateIssueStatus string string

fun step :: "BacklogContext \<Rightarrow> call \<Rightarrow> string \<times> BacklogContext" where
  "step ctx (CreateIssue name description status) = create_issue ctx name description status"
| "step ctx ListIssues = list_issues ctx"
| "step ctx (SelectIssue name) = select_issue ctx name"
| "step ctx (InitializeIssue name description status) = initialize_issue ctx name description status"
| "step ctx (AddTask uuid4 title description) = add_task ctx uuid4 title description"
| "step ctx (ListTasks status) = list_tasks ctx status"
| "step ctx (UpdateTaskStatus task_id status) = update_task_status ctx task_id status"
| "step ctx (UpdateIssueStatus name status) = update_issue_status ctx name status"

fun run :: "BacklogContext \<Rightarrow> call list \<Rightarrow> BacklogContext" where
  "run ctx [] = ctx"
| "run ctx (c # cs) = run (snd (step ctx c)) cs"

definition startup :: BacklogContext where
  "startup = \<lparr>tasks_file = None, active_issue = None\<rparr>"

section \<open>Preconditions and sample sessions\<close>

text \<open>
  A call keeps issue names non-empty when it does not hand the empty string to
  \<open>create_issue\<close> or \<open>initialize_issue\<close> as the issue name.
\<close>

fun names_nonempty :: "call \<Rightarrow> bool" where
  "names_nonempty (CreateIssue name description status) = (name \<noteq> [])"
| "names_nonempty (InitializeIssue name description status) = (name \<noteq> [])"
| "names_nonempty c = True"

text \<open>
  Sample sessions for the concrete instances below: an issue with one task, the same
  issue without tasks, a session whose active issue is the empty name while the tasks
  file is gone, and a document holding an issue under the empty name.
\<close>

definition auth_ctx :: BacklogContext where
  "auth_ctx =
     \<lparr>tasks_file = Some [(''Auth'',
        \<lparr>i_description = ''Login work'', i_status = ''InWork'',
         i_tasks = [(''0f8fad5b'',
           \<lparr>t_title = ''Login flow'', t_description = ''Form and session'', t_status = ''New''\<rparr>)]\<rparr>)],
      active_issue = Some ''Auth''\<rparr>"

definition empty_auth_ctx :: BacklogContext where
  "empty_auth_ctx =
     \<lparr>tasks_file = Some [(''Auth'',
        \<lparr>i_description = ''Login work'', i_status = ''InWork'', i_tasks = []\<rparr>)],
      active_issue = Some ''Auth''\<rparr>"

definition orphan_ctx :: BacklogContext where
  "orphan_ctx = \<lparr>tasks_file = None, active_issue = Some []\<rparr>"

definition unnamed_ctx :: BacklogContext where
  "unnamed_ctx =
     \<lparr>tasks_file = Some [([],
        \<lparr>i_description = ''Untitled'', i_status = ''New'',
         i_tasks = [(''0f8fad5b'',
           \<lparr>t_title = ''Login flow'', t_description = ''Form and session'', t_status = ''New''\<rparr>)]\<rparr>)],
      active_issue = Some []\<rparr>"

section \<open>Facts about dictionaries and strings\<close>

lemma contains_map_of: "contains d k \<longleftrightarrow> map_of d k \<noteq> None"
  by (simp add: contains_def map_of_eq_None_iff)

lemma map_of_setitem: "map_of (setitem d k v) = (map_of d)(k \<mapsto> v)"
  by (induction d) auto

lemma setitem_fresh: "\<not> contains d k \<Longrightarrow> setitem d k v = d @ [(k, v)]"
  by (induction d) (auto simp: contains_def)

lemma keys_setitem: "set (map fst (setitem d k v)) = insert k (set (map fst d))"
  by (induction d) auto

lemma contains_setitem: "contains (setitem d k' v) k \<longleftrightarrow> k = k' \<or> contains d k"
  by (auto simp: contains_def keys_setitem simp del: set_map)

lemma map_fst_setitem: "contains d k \<Longrightarrow> map fst (setitem d k v) = map fst d"
  by (induction d) (auto simp: contains_def)

lemma length_setitem:
  "length (setitem d k v) = (if contains d k then length d else Suc (length d))"
  by (induction d) (auto simp: contains_def)

lemma setitem_mem: "(k, v) \<in> set (setitem d k v)"
  by (induction d) auto

lemma join_append:
  "xs \<noteq> [] \<Longrightarrow> ys \<noteq> [] \<Longrightarrow> join sep (xs @ ys) = join sep xs @ sep @ join sep ys"
proof (induction sep xs rule: join.induct)
  case (1 sep)
  then show ?case by simp
next
  case (2 sep x)
  then show ?case by (cases ys) simp_all
next
  case (3 sep x y ys)
  then show ?case by simp
qed

lemma no_active_issue_neq_not_found: "no_active_issue \<noteq> issue_not_found name"
  by (simp add: no_active_issue_def issue_not_found_def)

section \<open>Facts about the operations\<close>

lemma create_issue_exists:
  "contains (load_tasks (tasks_file ctx)) name \<Longrightarrow>
     create_issue ctx name description status = (already_exists name, ctx)"
  by (simp add: create_issue_def)

lemma create_issue_fresh:
  "\<not> contains (load_tasks (tasks_file ctx)) name \<Longrightarrow> status \<in> set IssueStatus \<Longrightarrow>
     create_issue ctx name description status =
       (''Successfully created issue: '' @ name @ '' with status: '' @ status,
        \<lparr>tasks_file = Some (load_tasks (tasks_file ctx)
             @ [(name, \<lparr>i_description = description, i_status = status, i_tasks = []\<rparr>)]),
         active_issue = Some name\<rparr>)"
  by (simp add: create_issue_def Let_def save_tasks_def setitem_fresh)

subsection \<open>The listing of tasks\<close>

text \<open>Without a filter the loop appends the lines of every task, in order.\<close>

lemma list_tasks_loop_nofilter:
  "\<not> truthy status \<Longrightarrow> list_tasks_loop status ps result = result @ concat (map task_lines ps)"
  by (induction ps arbitrary: result) auto

lemma list_tasks_loop_empty_filter:
  "list_tasks_loop (Some []) ps result = list_tasks_loop None ps result"
proof -
  have a: "\<not> truthy (Some [])" and b: "\<not> truthy None"
    by (simp_all add: truthy_def)
  show ?thesis
    by (simp only: list_tasks_loop_nofilter [OF a] list_tasks_loop_nofilter [OF b])
qed

lemma build_task_list_empty_filter:
  "build_task_list name issue_data (Some []) = build_task_list name issue_data None"
  unfolding build_task_list_def list_tasks_loop_empty_filter
  by (simp only: option.case simp_thms if_False)

lemma join_task_lines:
  "join nl (task_lines (k, t)) =
     nl @ ''ID: '' @ k @ nl @ ''Title: '' @ t_title t @ nl @ ''Status: '' @ t_status t
     @ (if t_description t \<noteq> [] then nl @ ''Description: '' @ t_description t else [])"
  by (simp add: task_lines_def)

lemma task_lines_nonempty: "task_lines p \<noteq> []"
  by (simp add: task_lines_def)

lemma length_task_lines: "3 \<le> length (task_lines p)"
  by (simp add: task_lines_def)

lemma join_tasks_starts:
  "ps \<noteq> [] \<Longrightarrow> \<exists>rest. join nl (concat (map task_lines ps)) = nl @ ''ID: '' @ rest"
proof (cases ps)
  case Nil
  assume "ps \<noteq> []"
  with Nil show ?thesis by simp
next
  case (Cons p qs)
  obtain more where m:
    "task_lines p = (nl @ ''ID: '' @ fst p) # (''Title: '' @ t_title (snd p)) # more"
    by (simp add: task_lines_def)
  show ?thesis
    unfolding Cons by (simp add: m)
qed

text \<open>
  A task of the mapping shows up in the joined text as its own block of lines; what
  follows the block is nothing or the block of the next task.
\<close>

lemma render_contains_task:
  assumes "(k, t) \<in> set ps" and "result0 \<noteq> []"
  shows "\<exists>before after.
           join nl (result0 @ concat (map task_lines ps)) =
             before @ nl @ join nl (task_lines (k, t)) @ after
         \<and> (after = [] \<or> (\<exists>rest. after = nl @ nl @ ''ID: '' @ rest))"
proof -
  obtain ps1 ps2 where ps: "ps = ps1 @ (k, t) # ps2"
    using assms(1) by (auto dest: split_list)
  let ?A = "result0 @ concat (map task_lines ps1)"
  let ?B = "task_lines (k, t)"
  let ?C = "concat (map task_lines ps2)"
  have A: "?A \<noteq> []" using assms(2) by simp
  have B: "?B \<noteq> []" by (rule task_lines_nonempty)
  have split: "result0 @ concat (map task_lines ps) = ?A @ (?B @ ?C)"
    by (simp add: ps)
  have 1: "join nl (?A @ (?B @ ?C)) = join nl ?A @ nl @ join nl (?B @ ?C)"
    using A B by (intro join_append) simp_all
  show ?thesis
  proof (cases ps2)
    case Nil
    then have "join nl (?B @ ?C) = join nl ?B" by simp
    with 1 split
    have "join nl (result0 @ concat (map task_lines ps)) = join nl ?A @ nl @ join nl ?B @ []"
      by simp
    then show ?thesis by blast
  next
    case (Cons q qs)
    then have C: "?C \<noteq> []" by (simp add: task_lines_nonempty)
    obtain rest where r: "join nl ?C = nl @ ''ID: '' @ rest"
      using join_tasks_starts [of ps2] Cons by auto
    have "join nl (?B @ ?C) = join nl ?B @ nl @ join nl ?C"
      using B C by (rule join_append)
    with 1 split r
    have "join nl (result0 @ concat (map task_lines ps)) =
            join nl ?A @ nl @ join nl ?B @ (nl @ nl @ ''ID: '' @ rest)"
      by simp
    then show ?thesis by blast
  qed
qed

lemma build_task_list_nofilter:
  assumes "(k, t) \<in> set (i_tasks issue_data)"
  shows "build_task_list name issue_data None =
           join nl (([''Tasks for issue: '' @ name]
             @ (if i_description issue_data \<noteq> []
                then [''Issue description: '' @ i_description issue_data] else []))
             @ concat (map task_lines (i_tasks issue_data)))"
proof -
  obtain ps1 ps2 where ps: "i_tasks issue_data = ps1 @ (k, t) # ps2"
    using assms by (auto dest: split_list)
  have "3 \<le> length (concat (map task_lines (i_tasks issue_data)))"
    using length_task_lines [of "(k, t)"] by (simp add: ps)
  then show ?thesis
    by (simp add: build_task_list_def Let_def list_tasks_loop_nofilter truthy_def)
qed

subsection \<open>Task counts after \<open>add_task\<close>\<close>

text \<open>
  \<open>add_task\<close> on a usable active issue adds one task when the drawn id is new to the
  issue, and keeps the number of tasks when the id is already there.
\<close>

lemma add_task_task_count:
  assumes "active_issue ctx = Some name" and "name \<noteq> []"
    and "map_of (load_tasks (tasks_file ctx)) name = Some issue_data"
  shows "\<exists>issue_data'.
           map_of (load_tasks (tasks_file (snd (add_task ctx uuid title description)))) name
             = Some issue_data'
         \<and> length (i_tasks issue_data') =
             (if contains (i_tasks issue_data) (take 8 uuid)
              then length (i_tasks issue_data) else Suc (length (i_tasks issue_data)))"
  using assms
  by (simp add: add_task_def Let_def save_tasks_def load_tasks_def map_of_setitem length_setitem)

subsection \<open>Issue names along a run\<close>

lemma step_keeps_names_nonempty:
  assumes "\<not> contains (load_tasks (tasks_file ctx)) []" and "names_nonempty c"
  shows "\<not> contains (load_tasks (tasks_file (snd (step ctx c)))) []"
proof (cases c)
  case (CreateIssue name description status)
  with assms show ?thesis
    by (auto simp: create_issue_def Let_def save_tasks_def load_tasks_def contains_setitem)
next
  case ListIssues
  with assms show ?thesis by (simp add: list_issues_def Let_def contains_def)
next
  case (SelectIssue name)
  with assms show ?thesis by (simp add: select_issue_def Let_def)
next
  case (InitializeIssue name description status)
  with assms show ?thesis
    by (auto simp: initialize_issue_def Let_def save_tasks_def load_tasks_def contains_setitem)
next
  case (AddTask uuid title description)
  with assms show ?thesis
    by (auto simp: add_task_def Let_def save_tasks_def load_tasks_def contains_setitem
        split: option.splits)
next
  case (ListTasks status)
  with assms show ?thesis
    by (auto simp: list_tasks_def Let_def split: option.splits)
next
  case (UpdateTaskStatus task_id status)
  with assms show ?thesis
    by (auto simp: update_task_status_def Let_def save_tasks_def load_tasks_def contains_setitem
        split: option.splits)
next
  case (UpdateIssueStatus name status)
  with assms show ?thesis
    by (auto simp: update_issue_status_def Let_def save_tasks_def load_tasks_def
        contains_map_of map_of_setitem split: option.splits)
qed

lemma run_keeps_names_nonempty:
  "\<not> contains (load_tasks (tasks_file ctx)) [] \<Longrightarrow> \<forall>c\<in>set cs. names_nonempty c \<Longrightarrow>
     \<not> contains (load_tasks (tasks_file (run ctx cs))) []"
  by (induction cs arbitrary: ctx) (simp_all add: step_keeps_names_nonempty)

section \<open>Claims about the issue operations\<close>

text \<open>
  Claim C1. On a store in which \<open>name\<close> is not a key, and with a status among New,
  InWork and Done, \<open>create_issue\<close> appends a new issue under \<open>name\<close> with the given
  description and status and no tasks, writes the store, makes \<open>name\<close> the active
  issue and returns the success message. When \<open>name\<close> is already a key (compared as
  an exact string) it returns the already-exists error and changes nothing; the name is
  tested first, so this holds whatever the status. When \<open>name\<close> is new and the status is
  not one of the three values it returns the invalid-status error and changes nothing.
\<close>

theorem create_issue_correct:
  "(\<not> contains (load_tasks (tasks_file ctx)) name \<and> status \<in> {''New'', ''InWork'', ''Done''} \<longrightarrow>
      create_issue ctx name description status =
        (''Successfully created issue: '' @ name @ '' with status: '' @ status,
         \<lparr>tasks_file = Some (load_tasks (tasks_file ctx)
              @ [(name, \<lparr>i_description = description, i_status = status, i_tasks = []\<rparr>)]),
          active_issue = Some name\<rparr>))
   \<and> (contains (load_tasks (tasks_file ctx)) name \<longrightarrow>
      create_issue ctx name description status = (already_exists name, ctx))
   \<and> (\<not> contains (load_tasks (tasks_file ctx)) name \<and> status \<notin> {''New'', ''InWork'', ''Done''} \<longrightarrow>
      create_issue ctx name description status =
        (invalid_status status [''New'', ''InWork'', ''Done''], ctx))"
  by (simp add: create_issue_def Let_def IssueStatus_def save_tasks_def setitem_fresh)

text \<open>The three cases of C1 at a fresh session, at an existing issue, and at a bad status.\<close>

theorem create_issue_correct_witness:
  "create_issue startup ''Auth'' ''Login work'' ''InWork'' =
     (''Successfully created issue: Auth with status: InWork'',
      \<lparr>tasks_file = Some [(''Auth'',
         \<lparr>i_description = ''Login work'', i_status = ''InWork'', i_tasks = []\<rparr>)],
       active_issue = Some ''Auth''\<rparr>)
   \<and> create_issue empty_auth_ctx ''Auth'' ''Other'' ''New'' = (already_exists ''Auth'', empty_auth_ctx)
   \<and> create_issue startup ''Auth'' ''Login work'' ''Open'' =
     (invalid_status ''Open'' [''New'', ''InWork'', ''Done''], startup)"
  using create_issue_correct [where ctx = startup and name = "''Auth''"
      and description = "''Login work''" and status = "''InWork''"]
    create_issue_correct [where ctx = empty_auth_ctx and name = "''Auth''"
      and description = "''Other''" and status = "''New''"]
    create_issue_correct [where ctx = startup and name = "''Auth''"
      and description = "''Login work''" and status = "''Open''"]
  by (simp add: startup_def empty_auth_ctx_def load_tasks_def contains_def)

text \<open>
  Claim C2. On a store that contains issue \<open>name\<close>, \<open>create_issue\<close> with that name
  returns the already-exists error and leaves the context, and with it the stored
  issue, exactly as it was. In particular a second \<open>create_issue\<close> after a successful
  first one fails this way, whatever description and status it carries.
\<close>

theorem create_issue_twice_unchanged:
  "(contains (load_tasks (tasks_file ctx)) name \<longrightarrow>
      create_issue ctx name description status = (already_exists name, ctx))
   \<and> (\<not> contains (load_tasks (tasks_file ctx)) name \<and> status \<in> {''New'', ''InWork'', ''Done''} \<longrightarrow>
      create_issue (snd (create_issue ctx name description status)) name description' status' =
        (already_exists name, snd (create_issue ctx name description status)))"
proof (intro conjI impI)
  assume "contains (load_tasks (tasks_file ctx)) name"
  then show "create_issue ctx name description status = (already_exists name, ctx)"
    by (rule create_issue_exists)
next
  assume "\<not> contains (load_tasks (tasks_file ctx)) name \<and> status \<in> {''New'', ''InWork'', ''Done''}"
  then have "contains (load_tasks (tasks_file (snd (create_issue ctx name description status)))) name"
    by (simp add: create_issue_fresh IssueStatus_def load_tasks_def contains_def)
  then show "create_issue (snd (create_issue ctx name description status)) name description' status' =
        (already_exists name, snd (create_issue ctx name description status))"
    by (rule create_issue_exists)
qed

text \<open>C2 at an issue that holds a task, and at a second call after a first.\<close>

theorem create_issue_twice_unchanged_witness:
  "create_issue auth_ctx ''Auth'' ''Other'' ''Done'' = (already_exists ''Auth'', auth_ctx)
   \<and> create_issue (snd (create_issue startup ''Auth'' ''Login work'' ''InWork'')) ''Auth'' ''Other'' ''Done''
       = (already_exists ''Auth'', snd (create_issue startup ''Auth'' ''Login work'' ''InWork''))"
  using create_issue_twice_unchanged [where ctx = auth_ctx and name = "''Auth''"
      and description = "''Other''" and status = "''Done''"]
    create_issue_twice_unchanged [where ctx = startup and name = "''Auth''"
      and description = "''Login work''" and status = "''InWork''"
      and description' = "''Other''" and status' = "''Done''"]
  by (simp add: auth_ctx_def startup_def load_tasks_def contains_def)

text \<open>
  Claim C3. With a status among New, InWork and Done, \<open>initialize_issue\<close> succeeds on
  every store, whether or not \<open>name\<close> is a key: afterwards the store holds under \<open>name\<close>
  an issue with the given description and status and no tasks (any earlier tasks are
  gone), every other issue is as before, the store is written and \<open>name\<close> is the active
  issue. With any other status it returns the invalid-status error and changes
  nothing; that is its only error.
\<close>

theorem initialize_issue_correct:
  "(status \<in> {''New'', ''InWork'', ''Done''} \<longrightarrow>
      initialize_issue ctx name description status =
        (''Successfully initialized issue: '' @ name @ '' with status: '' @ status,
         \<lparr>tasks_file = Some (setitem (load_tasks (tasks_file ctx)) name
              \<lparr>i_description = description, i_status = status, i_tasks = []\<rparr>),
          active_issue = Some name\<rparr>)
      \<and> map_of (load_tasks (tasks_file (snd (initialize_issue ctx name description status)))) name =
          Some \<lparr>i_description = description, i_status = status, i_tasks = []\<rparr>
      \<and> (\<forall>other. other \<noteq> name \<longrightarrow>
            map_of (load_tasks (tasks_file (snd (initialize_issue ctx name description status)))) other =
            map_of (load_tasks (tasks_file ctx)) other))
   \<and> (status \<notin> {''New'', ''InWork'', ''Done''} \<longrightarrow>
      initialize_issue ctx name description status =
        (invalid_status status [''New'', ''InWork'', ''Done''], ctx))"
  by (simp add: initialize_issue_def Let_def IssueStatus_def save_tasks_def map_of_setitem
      load_tasks_def)

text \<open>C3 at an issue that holds a task: the task is gone; and at a bad status.\<close>

theorem initialize_issue_correct_witness:
  "initialize_issue auth_ctx ''Auth'' ''Start over'' ''New'' =
     (''Successfully initialized issue: Auth with status: New'',
      \<lparr>tasks_file = Some [(''Auth'',
         \<lparr>i_description = ''Start over'', i_status = ''New'', i_tasks = []\<rparr>)],
       active_issue = Some ''Auth''\<rparr>)
   \<and> initialize_issue auth_ctx ''Auth'' ''Start over'' ''Open'' =
     (invalid_status ''Open'' [''New'', ''InWork'', ''Done''], auth_ctx)"
  using initialize_issue_correct [where ctx = auth_ctx and name = "''Auth''"
      and description = "''Start over''" and status = "''New''"]
    initialize_issue_correct [where ctx = auth_ctx and name = "''Auth''"
      and description = "''Start over''" and status = "''Open''"]
  by (simp add: auth_ctx_def load_tasks_def)

section \<open>Claims about the task operations\<close>

text \<open>
  Claim C4, as amended. Each of \<open>add_task\<close>, \<open>list_tasks\<close> and \<open>update_task_status\<close>
  returns the no-active-issue error when the session's active issue is unset or is the
  empty string, and returns the issue-not-found error when the active issue is a
  non-empty name that is not a key of the loaded store. In both cases the context, and
  so the store, is unchanged.
\<close>

theorem task_operations_require_active_issue:
  "((active_issue ctx = None \<or> active_issue ctx = Some []) \<longrightarrow>
      add_task ctx uuid title description = (no_active_issue, ctx)
      \<and> list_tasks ctx status_filter = (no_active_issue, ctx)
      \<and> update_task_status ctx task_id status = (no_active_issue, ctx))
   \<and> (active_issue ctx = Some name \<and> name \<noteq> [] \<and> \<not> contains (load_tasks (tasks_file ctx)) name \<longrightarrow>
      add_task ctx uuid title description = (issue_not_found name, ctx)
      \<and> list_tasks ctx status_filter = (issue_not_found name, ctx)
      \<and> update_task_status ctx task_id status = (issue_not_found name, ctx))"
  by (auto simp: add_task_def list_tasks_def update_task_status_def contains_map_of)

text \<open>
  The amended C4 at a fresh session, at a session whose active issue is the empty
  string, and at a session whose tasks file has been removed.
\<close>

theorem task_operations_require_active_issue_witness:
  "add_task startup ''7c9e6679-7425-40de-944b-e07fc1f90ae7'' ''Logout flow'' [] = (no_active_issue, startup)
   \<and> list_tasks orphan_ctx None = (no_active_issue, orphan_ctx)
   \<and> update_task_status startup ''0f8fad5b'' ''Done'' = (no_active_issue, startup)
   \<and> add_task (auth_ctx\<lparr>tasks_file := None\<rparr>) ''7c9e6679-7425-40de-944b-e07fc1f90ae7'' ''Logout flow'' []
       = (issue_not_found ''Auth'', auth_ctx\<lparr>tasks_file := None\<rparr>)
   \<and> list_tasks (auth_ctx\<lparr>tasks_file := None\<rparr>) None
       = (issue_not_found ''Auth'', auth_ctx\<lparr>tasks_file := None\<rparr>)
   \<and> update_task_status (auth_ctx\<lparr>tasks_file := None\<rparr>) ''0f8fad5b'' ''Done''
       = (issue_not_found ''Auth'', auth_ctx\<lparr>tasks_file := None\<rparr>)"
  using task_operations_require_active_issue [where ctx = startup
      and uuid = "''7c9e6679-7425-40de-944b-e07fc1f90ae7''" and title = "''Logout flow''"
      and description = "[]" and task_id = "''0f8fad5b''" and status = "''Done''"]
    task_operations_require_active_issue [where ctx = orphan_ctx and status_filter = None]
    task_operations_require_active_issue [where ctx = "auth_ctx\<lparr>tasks_file := None\<rparr>"
      and name = "''Auth''"
      and uuid = "''7c9e6679-7425-40de-944b-e07fc1f90ae7''" and title = "''Logout flow''"
      and description = "[]" and task_id = "''0f8fad5b''" and status = "''Done''"
      and status_filter = None]
  by (simp add: startup_def orphan_ctx_def auth_ctx_def load_tasks_def contains_def)

text \<open>
  C4 as first stated fails where the active issue has been set to the empty string and
  that name is not a key of the store, as after \<open>create_issue\<close> with the empty name
  and the removal of the tasks file: the session has an active issue, the name does
  not resolve, and yet the answer is the no-active-issue error, not issue-not-found.
\<close>

theorem empty_active_issue_counterexample:
  "(snd (create_issue startup [] ''Untitled'' ''New''))\<lparr>tasks_file := None\<rparr> = orphan_ctx
   \<and> active_issue orphan_ctx = Some []
   \<and> \<not> contains (load_tasks (tasks_file orphan_ctx)) []
   \<and> add_task orphan_ctx ''7c9e6679-7425-40de-944b-e07fc1f90ae7'' ''Logout flow'' []
       = (no_active_issue, orphan_ctx)
   \<and> fst (add_task orphan_ctx ''7c9e6679-7425-40de-944b-e07fc1f90ae7'' ''Logout flow'' [])
       \<noteq> issue_not_found []"
  by (simp add: add_task_def orphan_ctx_def load_tasks_def contains_def
      no_active_issue_def issue_not_found_def startup_def create_issue_def save_tasks_def
      IssueStatus_def)

text \<open>
  Claim C5. In a session whose active issue is usable (a non-empty name that is a key
  of the store), \<open>add_task\<close> returns a message that carries the generated task id,
  and \<open>list_tasks\<close> without a filter, called next, shows a block made of that id, the
  given title, the status New and, when the description is not empty, the given
  description. The block ends the text or is followed by the block of the next task.
\<close>

theorem add_task_list_tasks_roundtrip:
  assumes "active_issue ctx = Some name" and "name \<noteq> []"
    and "contains (load_tasks (tasks_file ctx)) name"
  shows "fst (add_task ctx uuid title description) =
           ''Successfully added task: '' @ title @ '' (ID: '' @ take 8 uuid
             @ '') to issue '' @ sq @ name @ sq
       \<and> (\<exists>before after.
             fst (list_tasks (snd (add_task ctx uuid title description)) None) =
               before @ nl @ nl @ ''ID: '' @ take 8 uuid @ nl @ ''Title: '' @ title
                 @ nl @ ''Status: New''
                 @ (if description \<noteq> [] then nl @ ''Description: '' @ description else [])
                 @ after
           \<and> (after = [] \<or> (\<exists>rest. after = nl @ nl @ ''ID: '' @ rest)))"
proof -
  obtain issue_data where i: "map_of (load_tasks (tasks_file ctx)) name = Some issue_data"
    using assms(3) by (auto simp: contains_map_of)
  let ?t = "\<lparr>t_title = title, t_description = description, t_status = ''New''\<rparr>"
  let ?tasks = "setitem (i_tasks issue_data) (take 8 uuid) ?t"
  let ?issue = "issue_data\<lparr>i_tasks := ?tasks\<rparr>"
  let ?ctx' = "save_tasks ctx (setitem (load_tasks (tasks_file ctx)) name ?issue)"
  have add: "add_task ctx uuid title description =
      (''Successfully added task: '' @ title @ '' (ID: '' @ take 8 uuid
         @ '') to issue '' @ sq @ name @ sq, ?ctx')"
    using assms(1,2) i by (simp add: add_task_def Let_def)
  have mem: "(take 8 uuid, ?t) \<in> set (i_tasks ?issue)"
    by (simp add: setitem_mem)
  then have ne: "i_tasks ?issue \<noteq> []"
    by auto
  have look: "map_of (load_tasks (tasks_file ?ctx')) name = Some ?issue"
    by (simp add: save_tasks_def load_tasks_def map_of_setitem)
  have act: "active_issue ?ctx' = Some name"
    using assms(1) by (simp add: save_tasks_def)
  have lst: "fst (list_tasks ?ctx' None) = build_task_list name ?issue None"
    using look act assms(2) ne by (simp add: list_tasks_def Let_def)
  let ?r0 = "[''Tasks for issue: '' @ name]
             @ (if i_description ?issue \<noteq> []
                then [''Issue description: '' @ i_description ?issue] else [])"
  have "build_task_list name ?issue None = join nl (?r0 @ concat (map task_lines (i_tasks ?issue)))"
    using mem by (rule build_task_list_nofilter)
  moreover obtain before after where
    "join nl (?r0 @ concat (map task_lines (i_tasks ?issue))) =
       before @ nl @ join nl (task_lines (take 8 uuid, ?t)) @ after"
    and "after = [] \<or> (\<exists>rest. after = nl @ nl @ ''ID: '' @ rest)"
    using render_contains_task [OF mem, of ?r0] by auto
  ultimately have "fst (list_tasks ?ctx' None) =
      before @ nl @ nl @ ''ID: '' @ take 8 uuid @ nl @ ''Title: '' @ title
        @ nl @ ''Status: New''
        @ (if description \<noteq> [] then nl @ ''Description: '' @ description else [])
        @ after
      \<and> (after = [] \<or> (\<exists>rest. after = nl @ nl @ ''ID: '' @ rest))"
    using lst by (simp add: join_task_lines)
  then show ?thesis
    unfolding add by (intro conjI exI[of _ before] exI[of _ after]) simp_all
qed

text \<open>C5 at an issue that already holds one task: the whole text of the listing.\<close>

theorem add_task_list_tasks_roundtrip_witness:
  "fst (add_task auth_ctx ''7c9e6679-7425-40de-944b-e07fc1f90ae7'' ''Logout flow'' ''Clear session'') =
     ''Successfully added task: Logout flow (ID: 7c9e6679) to issue '' @ sq @ ''Auth'' @ sq
   \<and> fst (list_tasks (snd (add_task auth_ctx ''7c9e6679-7425-40de-944b-e07fc1f90ae7''
        ''Logout flow'' ''Clear session'')) None) =
     ''Tasks for issue: Auth'' @ nl @ ''Issue description: Login work''
       @ nl @ nl @ ''ID: 0f8fad5b'' @ nl @ ''Title: Login flow'' @ nl @ ''Status: New''
       @ nl @ ''Description: Form and session''
       @ nl @ nl @ ''ID: 7c9e6679'' @ nl @ ''Title: Logout flow'' @ nl @ ''Status: New''
       @ nl @ ''Description: Clear session''"
  using add_task_list_tasks_roundtrip [where ctx = auth_ctx and name = "''Auth''"
      and uuid = "''7c9e6679-7425-40de-944b-e07fc1f90ae7''" and title = "''Logout flow''"
      and description = "''Clear session''"]
  by (simp add: auth_ctx_def load_tasks_def save_tasks_def contains_def add_task_def
      list_tasks_def build_task_list_def task_lines_def truthy_def)

text \<open>
  Claim C6, as amended. Where the active issue is a non-empty name, is a key of the
  store and contains task \<open>task_id\<close>, \<open>update_task_status\<close> with a status outside New,
  InWork and Done returns the invalid-status error and leaves the context, and so the
  task's status, unchanged. With a status among the three it overwrites the task's
  status in place (the order of the tasks and every other task stay as they were),
  writes the store, and reports the task's title, the old status and the new one.
\<close>

theorem update_task_status_correct:
  assumes "active_issue ctx = Some name" and "name \<noteq> []"
    and "map_of (load_tasks (tasks_file ctx)) name = Some issue_data"
    and "map_of (i_tasks issue_data) task_id = Some t"
  shows "(status \<notin> {''New'', ''InWork'', ''Done''} \<longrightarrow>
            update_task_status ctx task_id status =
              (invalid_status status [''New'', ''InWork'', ''Done''], ctx))
       \<and> (status \<in> {''New'', ''InWork'', ''Done''} \<longrightarrow>
            update_task_status ctx task_id status =
              (''Successfully updated task '' @ sq @ t_title t @ sq @ '' (ID: '' @ task_id
                 @ '') status from '' @ sq @ t_status t @ sq @ '' to '' @ sq @ status @ sq @ ''.'',
               ctx\<lparr>tasks_file := Some (setitem (load_tasks (tasks_file ctx)) name
                  (issue_data\<lparr>i_tasks := setitem (i_tasks issue_data) task_id (t\<lparr>t_status := status\<rparr>)\<rparr>))\<rparr>)
          \<and> (\<exists>issue_data'.
                map_of (load_tasks (tasks_file (snd (update_task_status ctx task_id status)))) name
                  = Some issue_data'
              \<and> map_of (i_tasks issue_data') task_id = Some (t\<lparr>t_status := status\<rparr>)
              \<and> map fst (i_tasks issue_data') = map fst (i_tasks issue_data)
              \<and> (\<forall>other. other \<noteq> task_id \<longrightarrow>
                    map_of (i_tasks issue_data') other = map_of (i_tasks issue_data) other)))"
proof -
  have "contains (i_tasks issue_data) task_id"
    using assms(4) by (simp add: contains_map_of)
  then have "map fst (setitem (i_tasks issue_data) task_id v) = map fst (i_tasks issue_data)" for v
    by (rule map_fst_setitem)
  then show ?thesis
    using assms
    by (simp add: update_task_status_def Let_def TaskStatus_def save_tasks_def map_of_setitem
        load_tasks_def)
qed

text \<open>The amended C6 at a bad status and at the status Done.\<close>

theorem update_task_status_correct_witness:
  "update_task_status auth_ctx ''0f8fad5b'' ''NotAStatus'' =
     (invalid_status ''NotAStatus'' [''New'', ''InWork'', ''Done''], auth_ctx)
   \<and> update_task_status auth_ctx ''0f8fad5b'' ''Done'' =
     (''Successfully updated task '' @ sq @ ''Login flow'' @ sq @ '' (ID: 0f8fad5b) status from ''
        @ sq @ ''New'' @ sq @ '' to '' @ sq @ ''Done'' @ sq @ ''.'',
      \<lparr>tasks_file = Some [(''Auth'',
         \<lparr>i_description = ''Login work'', i_status = ''InWork'',
          i_tasks = [(''0f8fad5b'',
            \<lparr>t_title = ''Login flow'', t_description = ''Form and session'', t_status = ''Done''\<rparr>)]\<rparr>)],
       active_issue = Some ''Auth''\<rparr>)"
  using update_task_status_correct [where ctx = auth_ctx and name = "''Auth''"
      and task_id = "''0f8fad5b''" and status = "''NotAStatus''"
      and issue_data = "\<lparr>i_description = ''Login work'', i_status = ''InWork'',
         i_tasks = [(''0f8fad5b'',
           \<lparr>t_title = ''Login flow'', t_description = ''Form and session'', t_status = ''New''\<rparr>)]\<rparr>"
      and t = "\<lparr>t_title = ''Login flow'', t_description = ''Form and session'', t_status = ''New''\<rparr>"]
    update_task_status_correct [where ctx = auth_ctx and name = "''Auth''"
      and task_id = "''0f8fad5b''" and status = "''Done''"
      and issue_data = "\<lparr>i_description = ''Login work'', i_status = ''InWork'',
         i_tasks = [(''0f8fad5b'',
           \<lparr>t_title = ''Login flow'', t_description = ''Form and session'', t_status = ''New''\<rparr>)]\<rparr>"
      and t = "\<lparr>t_title = ''Login flow'', t_description = ''Form and session'', t_status = ''New''\<rparr>"]
  by (simp add: auth_ctx_def load_tasks_def)

text \<open>
  C6 as first stated fails where the active issue is the issue stored under the empty
  name, selected by \<open>select_issue\<close>: that issue contains the task, and yet a bad
  status is answered with the no-active-issue error, and a good status does not reach
  the task.
\<close>

theorem empty_name_update_counterexample:
  "select_issue (unnamed_ctx\<lparr>active_issue := None\<rparr>) [] = (''Selected issue: '', unnamed_ctx)
   \<and> active_issue unnamed_ctx = Some []
   \<and> load_tasks (tasks_file unnamed_ctx) =
       [([], \<lparr>i_description = ''Untitled'', i_status = ''New'',
          i_tasks = [(''0f8fad5b'',
            \<lparr>t_title = ''Login flow'', t_description = ''Form and session'', t_status = ''New''\<rparr>)]\<rparr>)]
   \<and> update_task_status unnamed_ctx ''0f8fad5b'' ''NotAStatus'' = (no_active_issue, unnamed_ctx)
   \<and> no_active_issue \<noteq> invalid_status ''NotAStatus'' TaskStatus
   \<and> update_task_status unnamed_ctx ''0f8fad5b'' ''Done'' = (no_active_issue, unnamed_ctx)"
  by (simp add: update_task_status_def unnamed_ctx_def load_tasks_def no_active_issue_def
      invalid_status_def select_issue_def contains_def)

text \<open>
  Claim C7, as amended. In a session whose active issue is usable (a non-empty name
  that is a key of the store) and holds at least one task, \<open>list_tasks\<close> with a filter
  that is a non-empty string outside New, InWork and Done returns the invalid-status
  error. When the active issue holds no task, \<open>list_tasks\<close> returns the no-tasks message
  of the issue whatever the filter is, valid or not. A filter that is the empty string
  is treated as no filter. The context is unchanged in each case.
\<close>

theorem list_tasks_filter_validation:
  assumes "active_issue ctx = Some name" and "name \<noteq> []"
    and "map_of (load_tasks (tasks_file ctx)) name = Some issue_data"
  shows "(i_tasks issue_data \<noteq> [] \<and> s \<noteq> [] \<and> s \<notin> {''New'', ''InWork'', ''Done''} \<longrightarrow>
            list_tasks ctx (Some s) = (invalid_status s [''New'', ''InWork'', ''Done''], ctx))
       \<and> (i_tasks issue_data = [] \<longrightarrow>
            list_tasks ctx status_filter =
              (''No tasks found in issue '' @ sq @ name @ sq @ ''.'', ctx))
       \<and> list_tasks ctx (Some []) = list_tasks ctx None"
  using assms
  by (simp add: list_tasks_def Let_def TaskStatus_def build_task_list_empty_filter)

text \<open>The amended C7 at an issue with one task and at an issue without tasks.\<close>

theorem list_tasks_filter_validation_witness:
  "list_tasks auth_ctx (Some ''Bogus'') = (invalid_status ''Bogus'' [''New'', ''InWork'', ''Done''], auth_ctx)
   \<and> list_tasks empty_auth_ctx (Some ''Done'') =
       (''No tasks found in issue '' @ sq @ ''Auth'' @ sq @ ''.'', empty_auth_ctx)
   \<and> list_tasks auth_ctx (Some []) = list_tasks auth_ctx None"
  using list_tasks_filter_validation [where ctx = auth_ctx and name = "''Auth''" and s = "''Bogus''"
      and issue_data = "\<lparr>i_description = ''Login work'', i_status = ''InWork'',
         i_tasks = [(''0f8fad5b'',
           \<lparr>t_title = ''Login flow'', t_description = ''Form and session'', t_status = ''New''\<rparr>)]\<rparr>"]
    list_tasks_filter_validation [where ctx = empty_auth_ctx and name = "''Auth''"
      and status_filter = "Some ''Done''"
      and issue_data = "\<lparr>i_description = ''Login work'', i_status = ''InWork'', i_tasks = []\<rparr>"]
  by (simp add: auth_ctx_def empty_auth_ctx_def load_tasks_def)

text \<open>
  C7 as first stated fails on an active issue without tasks: the filter \<open>Bogus\<close> is
  given and is not a status, and the answer is the no-tasks message, not the
  invalid-status error. It also fails for the empty string as the filter on an issue
  with a task: the answer is the full listing.
\<close>

theorem invalid_filter_on_empty_issue_counterexample:
  "active_issue empty_auth_ctx = Some ''Auth''
   \<and> contains (load_tasks (tasks_file empty_auth_ctx)) ''Auth''
   \<and> ''Bogus'' \<notin> set TaskStatus
   \<and> list_tasks empty_auth_ctx (Some ''Bogus'') =
       (''No tasks found in issue '' @ sq @ ''Auth'' @ sq @ ''.'', empty_auth_ctx)
   \<and> fst (list_tasks empty_auth_ctx (Some ''Bogus'')) \<noteq> invalid_status ''Bogus'' TaskStatus
   \<and> [] \<notin> set TaskStatus
   \<and> fst (list_tasks auth_ctx (Some [])) =
       ''Tasks for issue: Auth'' @ nl @ ''Issue description: Login work''
         @ nl @ nl @ ''ID: 0f8fad5b'' @ nl @ ''Title: Login flow'' @ nl @ ''Status: New''
         @ nl @ ''Description: Form and session''
   \<and> fst (list_tasks auth_ctx (Some [])) \<noteq> invalid_status [] TaskStatus"
  by (simp add: list_tasks_def empty_auth_ctx_def auth_ctx_def load_tasks_def TaskStatus_def
      invalid_status_def contains_def build_task_list_def task_lines_def truthy_def nl_def)

text \<open>
  Claim C8. The claim is that the id \<open>add_task\<close> generates is never a key of the active
  issue's tasks already, so that a successful \<open>add_task\<close> adds one task and overwrites
  none. The code draws the id and stores under it without looking at the keys. When
  the first eight characters of the draw are the id of an existing task, the call
  reports success, the existing task is replaced by the new one and the number of
  tasks stays the same: here the task \<open>Login flow\<close> is lost and the issue still holds
  one task.
\<close>

theorem add_task_collision_overwrites:
  "add_task auth_ctx ''0f8fad5b-d9cb-469f-a165-70867728950e'' ''Logout flow'' [] =
     (''Successfully added task: Logout flow (ID: 0f8fad5b) to issue '' @ sq @ ''Auth'' @ sq,
      \<lparr>tasks_file = Some [(''Auth'',
        \<lparr>i_description = ''Login work'', i_status = ''InWork'',
         i_tasks = [(''0f8fad5b'',
           \<lparr>t_title = ''Logout flow'', t_description = [], t_status = ''New''\<rparr>)]\<rparr>)],
       active_issue = Some ''Auth''\<rparr>)"
  by (simp add: add_task_def auth_ctx_def load_tasks_def save_tasks_def)

section \<open>Claims about issue names\<close>

text \<open>
  Claim C9, as amended. In every store reached from a fresh session by calls that do
  not pass the empty string as the issue name to \<open>create_issue\<close> or
  \<open>initialize_issue\<close>, no issue name is the empty string. The operations themselves do
  not reject the empty name.
\<close>

theorem issue_names_nonempty_invariant:
  "(\<forall>c\<in>set cs. names_nonempty c) \<Longrightarrow>
     \<not> contains (load_tasks (tasks_file (run startup cs))) []"
  by (rule run_keeps_names_nonempty) (simp_all add: startup_def load_tasks_def contains_def)

text \<open>The amended C9 along a run of four calls.\<close>

theorem issue_names_nonempty_invariant_witness:
  "\<not> contains (load_tasks (tasks_file (run startup
       [CreateIssue ''Auth'' ''Login work'' ''InWork'',
        AddTask ''0f8fad5b-d9cb-469f-a165-70867728950e'' ''Login flow'' ''Form and session'',
        UpdateTaskStatus ''0f8fad5b'' ''Done'',
        InitializeIssue ''Billing'' [] ''New'']))) []
   \<and> map fst (load_tasks (tasks_file (run startup
       [CreateIssue ''Auth'' ''Login work'' ''InWork'',
        AddTask ''0f8fad5b-d9cb-469f-a165-70867728950e'' ''Login flow'' ''Form and session'',
        UpdateTaskStatus ''0f8fad5b'' ''Done'',
        InitializeIssue ''Billing'' [] ''New'']))) = [''Auth'', ''Billing'']"
  using issue_names_nonempty_invariant [of
       "[CreateIssue ''Auth'' ''Login work'' ''InWork'',
        AddTask ''0f8fad5b-d9cb-469f-a165-70867728950e'' ''Login flow'' ''Form and session'',
        UpdateTaskStatus ''0f8fad5b'' ''Done'',
        InitializeIssue ''Billing'' [] ''New'']"]
  by (simp add: startup_def create_issue_def add_task_def update_task_status_def
      initialize_issue_def load_tasks_def save_tasks_def contains_def IssueStatus_def
      TaskStatus_def)

text \<open>
  C9 as first stated fails after one call: \<open>create_issue\<close> with the empty name on a
  fresh session succeeds, and the store then has the empty string as an issue name.
\<close>

theorem empty_issue_name_counterexample:
  "fst (step startup (CreateIssue [] ''Untitled'' ''New'')) =
     ''Successfully created issue:  with status: New''
   \<and> contains (load_tasks (tasks_file (run startup [CreateIssue [] ''Untitled'' ''New'']))) []"
  by (simp add: startup_def create_issue_def load_tasks_def save_tasks_def contains_def IssueStatus_def)

text \<open>
  Claim C10. When the session's active issue is the empty string, \<open>add_task\<close>,
  \<open>list_tasks\<close> and \<open>update_task_status\<close> all return the no-active-issue error and
  change nothing, whether or not the store has an issue under the empty name. That
  state is reached by the service itself: \<open>create_issue\<close> (on a store without that
  name) and \<open>initialize_issue\<close> accept the empty name with a valid status, store an
  issue under it and make it the active issue.
\<close>

theorem empty_name_is_no_selection:
  "(active_issue ctx = Some [] \<longrightarrow>
      add_task ctx uuid title description = (no_active_issue, ctx)
      \<and> list_tasks ctx status_filter = (no_active_issue, ctx)
      \<and> update_task_status ctx task_id status = (no_active_issue, ctx))
   \<and> (\<not> contains (load_tasks (tasks_file ctx)) [] \<and> st \<in> {''New'', ''InWork'', ''Done''} \<longrightarrow>
      active_issue (snd (create_issue ctx [] d st)) = Some []
      \<and> contains (load_tasks (tasks_file (snd (create_issue ctx [] d st)))) [])
   \<and> (st \<in> {''New'', ''InWork'', ''Done''} \<longrightarrow>
      active_issue (snd (initialize_issue ctx [] d st)) = Some []
      \<and> contains (load_tasks (tasks_file (snd (initialize_issue ctx [] d st)))) [])"
  by (auto simp: add_task_def list_tasks_def update_task_status_def create_issue_def
      initialize_issue_def Let_def save_tasks_def load_tasks_def IssueStatus_def contains_setitem)

text \<open>
  C10 on the session that \<open>create_issue\<close> with the empty name leaves behind: the issue
  exists and is the active one, and the three task operations answer no-active-issue.
\<close>

theorem empty_name_is_no_selection_witness:
  "active_issue (snd (create_issue startup [] ''Untitled'' ''New'')) = Some []
   \<and> contains (load_tasks (tasks_file (snd (create_issue startup [] ''Untitled'' ''New'')))) []
   \<and> add_task (snd (create_issue startup [] ''Untitled'' ''New''))
        ''7c9e6679-7425-40de-944b-e07fc1f90ae7'' ''Logout flow'' []
      = (no_active_issue, snd (create_issue startup [] ''Untitled'' ''New''))
   \<and> list_tasks (snd (create_issue startup [] ''Untitled'' ''New'')) None
      = (no_active_issue, snd (create_issue startup [] ''Untitled'' ''New''))
   \<and> update_task_status (snd (create_issue startup [] ''Untitled'' ''New'')) ''0f8fad5b'' ''Done''
      = (no_active_issue, snd (create_issue startup [] ''Untitled'' ''New''))
   \<and> active_issue (snd (initialize_issue startup [] ''Untitled'' ''New'')) = Some []"
  using empty_name_is_no_selection [where ctx = startup and d = "''Untitled''" and st = "''New''"]
    empty_name_is_no_selection [where ctx = "snd (create_issue startup [] ''Untitled'' ''New'')"
      and uuid = "''7c9e6679-7425-40de-944b-e07fc1f90ae7''" and title = "''Logout flow''"
      and description = "[]" and task_id = "''0f8fad5b''" and status = "''Done''"
      and status_filter = None]
  by (simp add: startup_def load_tasks_def contains_def)

end
